theory Spec2Isabelle
  imports Complex_Main
begin

section \<open>Dissimilarity matrices over searchlight patches (rsa/dsm.py)\<close>

text \<open>
  The module computes dissimilarity matrices (DSMs) of brain recordings, one per
  searchlight patch. Its arithmetic is modelled over \<^typ>\<open>real\<close>: numbers are exact,
  comparisons are the mathematical ones, and the values a float can take beyond the reals
  (nan, inf) are written out as separate outcomes where the code can produce them.
  Python's unbounded integers are \<^typ>\<open>int\<close>.
\<close>

subsection \<open>Errors\<close>

text \<open>
  Every exception the module raises, or lets through from the interpreter, is a value:
  the exception class with its message.
\<close>

datatype error =
    ValueError string
  | TypeError string
  | IndexError string
  | RuntimeError string
  | NonFinite string

text \<open>
  \<open>NonFinite\<close> is not an exception. Where numpy divides by zero it warns and goes on
  with nan or inf in the array; \<^typ>\<open>real\<close> has neither (in HOL \<open>x / 0 = 0\<close>), so
  the model stops there with this outcome instead of computing with a wrong number.
\<close>

definition bind_err :: "error + 'a \<Rightarrow> ('a \<Rightarrow> error + 'b) \<Rightarrow> error + 'b" where
  "bind_err m f = (case m of Inl e \<Rightarrow> Inl e | Inr x \<Rightarrow> f x)"

text \<open>A computation over every element of a list, in order; the first exception ends it.\<close>

fun map_err :: "('a \<Rightarrow> error + 'b) \<Rightarrow> 'a list \<Rightarrow> error + 'b list" where
  "map_err f [] = Inr []"
| "map_err f (x # xs) =
     (case f x of
        Inl e \<Rightarrow> Inl e
      | Inr y \<Rightarrow> (case map_err f xs of Inl e \<Rightarrow> Inl e | Inr ys \<Rightarrow> Inr (y # ys)))"

subsection \<open>Arrays\<close>

text \<open>
  An ndarray is a nesting of lists, one level per axis, with the numbers at the leaves:
  \<open>Sc x\<close> is a 0-dimensional array, \<open>Nd xs\<close> holds the sub-arrays along the first axis.
  A numpy array is rectangular; \<open>has_shape\<close> says so of a nesting. An axis of length 0
  ends the nesting, so the axes behind it are not recorded.
\<close>

datatype nd = Sc real | Nd "nd list"

fun has_shape :: "nat list \<Rightarrow> nd \<Rightarrow> bool" where
  "has_shape [] (Sc x) = True"
| "has_shape (n # ns) (Nd xs) = (length xs = n \<and> list_all (has_shape ns) xs)"
| "has_shape [] (Nd xs) = False"
| "has_shape (n # ns) (Sc x) = False"

text \<open>\<^verbatim>\<open>a.shape\<close>, read off the first element along every axis.\<close>

fun shape_of :: "nd \<Rightarrow> nat list" where
  "shape_of (Sc x) = []"
| "shape_of (Nd []) = [0]"
| "shape_of (Nd (x # xs)) = Suc (length xs) # shape_of x"

text \<open>\<^verbatim>\<open>a.ravel()\<close>: the numbers in row-major order.\<close>

primrec flat :: "nd \<Rightarrow> real list" where
  "flat (Sc x) = [x]"
| "flat (Nd xs) = concat (map flat xs)"

text \<open>\<^verbatim>\<open>len(a)\<close>.\<close>

definition py_len :: "nd \<Rightarrow> error + nat" where
  "py_len a = (case a of Sc x \<Rightarrow> Inl (TypeError ''len() of unsized object'')
                        | Nd xs \<Rightarrow> Inr (length xs))"

definition is_scalar :: "nd \<Rightarrow> bool" where
  "is_scalar a = (case a of Sc x \<Rightarrow> True | Nd xs \<Rightarrow> False)"

text \<open>
  \<^verbatim>\<open>np.reshape(data, (len(data), -1))\<close>: one row per item, its features flattened.
  numpy cannot infer the \<^verbatim>\<open>-1\<close> when the known axes multiply to 0.
\<close>

definition reshape_items :: "nd \<Rightarrow> error + real list list" where
  "reshape_items data =
     (case data of
        Sc x \<Rightarrow> Inl (TypeError ''len() of unsized object'')
      | Nd rows \<Rightarrow>
          if rows = [] then Inl (ValueError ''cannot reshape array of size 0'')
          else Inr (map flat rows))"

text \<open>
  \<^verbatim>\<open>np.reshape(folds, (folds.shape[0], folds.shape[1], -1))\<close>: folds, items, flattened
  features.
\<close>

definition reshape_folds :: "nd \<Rightarrow> error + real list list list" where
  "reshape_folds folds =
     (case folds of
        Sc x \<Rightarrow> Inl (IndexError ''tuple index out of range'')
      | Nd [] \<Rightarrow> Inl (ValueError ''cannot reshape array of size 0'')
      | Nd (Sc x # fs) \<Rightarrow> Inl (IndexError ''tuple index out of range'')
      | Nd (Nd items # fs) \<Rightarrow>
          if items = [] then Inl (ValueError ''cannot reshape array of size 0'')
          else Inr (map (\<lambda>f. case f of Sc x \<Rightarrow> [] | Nd its \<Rightarrow> map flat its) (Nd items # fs)))"




text \<open>A matrix of \<open>n\<close> rows with \<open>m\<close> entries each.\<close>

definition rect :: "nat \<Rightarrow> nat \<Rightarrow> real list list \<Rightarrow> bool" where
  "rect n m A = (length A = n \<and> list_all (\<lambda>row. length row = m) A)"

subsection \<open>Strings\<close>

text \<open>Python's \<^verbatim>\<open>s.startswith(p)\<close> and \<^verbatim>\<open>sub in s\<close>.\<close>

fun str_starts :: "string \<Rightarrow> string \<Rightarrow> bool" where
  "str_starts s [] = True"
| "str_starts [] (p # ps) = False"
| "str_starts (c # cs) (p # ps) = (c = p \<and> str_starts cs ps)"

fun str_in :: "string \<Rightarrow> string \<Rightarrow> bool" where
  "str_in sub [] = (sub = [])"
| "str_in sub (c # cs) = (str_starts (c # cs) sub \<or> str_in sub cs)"

subsection \<open>The metric library (scipy.spatial.distance)\<close>

text \<open>
  scipy's distance functions are not part of the module. They enter as a parameter
  \<open>d\<close>: the distance of two feature vectors under a named metric and its options.
  \<^verbatim>\<open>pdist\<close> gives the distances of all pairs of rows \<open>i < j\<close> of one matrix, row-major
  (the condensed form); \<^verbatim>\<open>cdist\<close> gives the matrix of distances between the rows of
  two matrices.
\<close>

type_synonym 'o metric_lib = "string \<Rightarrow> 'o \<Rightarrow> real list \<Rightarrow> real list \<Rightarrow> real"

definition pdist :: "'o metric_lib \<Rightarrow> real list list \<Rightarrow> string \<Rightarrow> 'o \<Rightarrow> real list" where
  "pdist d X metric kwargs =
     concat (map (\<lambda>i. map (\<lambda>j. d metric kwargs (X ! i) (X ! j)) [Suc i..<length X])
                 [0..<length X])"

definition cdist ::
  "'o metric_lib \<Rightarrow> real list list \<Rightarrow> real list list \<Rightarrow> string \<Rightarrow> 'o \<Rightarrow> real list list" where
  "cdist d XA XB metric kwargs = map (\<lambda>u. map (\<lambda>v. d metric kwargs u v) XB) XA"

text \<open>
  Two metrics of scipy's catalog, as its documentation defines them, for running the
  model on numbers: \<open>sqeuclidean\<close> is the sum of the squared differences,
  \<open>cityblock\<close> the sum of the absolute differences.
\<close>

definition sqeuclidean :: "real list \<Rightarrow> real list \<Rightarrow> real" where
  "sqeuclidean u v = sum_list (map2 (\<lambda>a b. (a - b) * (a - b)) u v)"

definition cityblock :: "real list \<Rightarrow> real list \<Rightarrow> real" where
  "cityblock u v = sum_list (map2 (\<lambda>a b. \<bar>a - b\<bar>) u v)"

definition catalog :: "unit metric_lib" where
  "catalog metric kwargs u v =
     (if metric = ''sqeuclidean'' then sqeuclidean u v
      else if metric = ''cityblock'' then cityblock u v
      else 0)"

subsection \<open>compute_dsm\<close>

definition arity_msg :: string where
  "arity_msg = ''There is only a single feature, so 'correlataion' and 'cosine' can not be used as DSM metric. Consider using 'sqeuclidean' instead.''"

text \<open>
  \<^verbatim>\<open>
  X = np.reshape(data, (len(data), -1))
  n_items, n_features = X.shape
  if n_features == 1 and metric in ['correlation', 'cosine']:
      raise ValueError("There is only a single feature, ...")
  return distance.pdist(X, metric, **kwargs)
  \<close>
\<close>

definition compute_dsm :: "'o metric_lib \<Rightarrow> nd \<Rightarrow> string \<Rightarrow> 'o \<Rightarrow> error + real list" where
  "compute_dsm d data metric kwargs =
     (case reshape_items data of
        Inl e \<Rightarrow> Inl e
      | Inr X \<Rightarrow>
          (let n_features = length (hd X) in
           if n_features = 1 \<and> metric \<in> set [''correlation'', ''cosine'']
           then Inl (ValueError arity_msg)
           else Inr (pdist d X metric kwargs)))"

subsection \<open>compute_dsm_cv\<close>

text \<open>\<^verbatim>\<open>X.mean(axis=0)\<close> of a folds x items x features array.\<close>

definition mean_axis0 :: "real list list list \<Rightarrow> real list list" where
  "mean_axis0 X =
     (let n_folds = length X; n_items = length (hd X); n_features = length (hd (hd X)) in
      map (\<lambda>i. map (\<lambda>j. (\<Sum>F\<leftarrow>X. F ! i ! j) / real n_folds) [0..<n_features])
          [0..<n_items])"

text \<open>
  \<^verbatim>\<open>X_train = X_mean - (X_mean - X_test) / (n_folds - 1)\<close>, element by element on two
  arrays of one shape.
\<close>

definition x_train :: "real list list \<Rightarrow> real list list \<Rightarrow> nat \<Rightarrow> real list list" where
  "x_train X_mean X_test n_folds =
     map2 (map2 (\<lambda>m t. m - (m - t) / of_int (int n_folds - 1))) X_mean X_test"

text \<open>
  \<^verbatim>\<open>dist[np.triu_indices_from(dist, 1)]\<close>: the entries above the diagonal, row-major.
\<close>

definition triu1 :: "real list list \<Rightarrow> real list" where
  "triu1 dists =
     concat (map (\<lambda>i. map (\<lambda>j. dists ! i ! j) [Suc i..<length (hd dists)])
                 [0..<length dists])"

text \<open>
  The cross-validation loop, over the test folds still to visit, with the running sum.
  \<^verbatim>\<open>
  for test_fold in range(n_folds):
      X_test = X[test_fold]
      X_train = X_mean - (X_mean - X_test) / (n_folds - 1)
      dist = distance.cdist(X_train, X_test, metric, **kwargs)
      dsm += dist[np.triu_indices_from(dist, 1)]
  \<close>
\<close>

fun cv_loop ::
  "'o metric_lib \<Rightarrow> string \<Rightarrow> 'o \<Rightarrow> real list list list \<Rightarrow> real list list \<Rightarrow> nat \<Rightarrow>
   nat list \<Rightarrow> real list \<Rightarrow> real list" where
  "cv_loop d metric kwargs X X_mean n_folds [] dsm = dsm"
| "cv_loop d metric kwargs X X_mean n_folds (test_fold # rest) dsm =
     (let X_test = X ! test_fold;
          X_train = x_train X_mean X_test n_folds;
          dists = cdist d X_train X_test metric kwargs
      in cv_loop d metric kwargs X X_mean n_folds rest (map2 (+) dsm (triu1 dists)))"

text \<open>
  \<^verbatim>\<open>
  X = np.reshape(folds, (folds.shape[0], folds.shape[1], -1))
  n_folds, n_items, n_features = X.shape[:3]
  if n_features == 1 and metric in ['correlation', 'cosine']:
      raise ValueError("There is only a single feature, ...")
  dsm = np.zeros((n_items * (n_items - 1)) // 2)
  X_mean = X.mean(axis=0)
  for test_fold in range(n_folds): ...
  return dsm / n_folds
  \<close>
  With a single fold \<open>n_folds - 1\<close> is 0 and every entry of \<open>X_train\<close> is \<open>0 / 0\<close>.
\<close>

definition compute_dsm_cv :: "'o metric_lib \<Rightarrow> nd \<Rightarrow> string \<Rightarrow> 'o \<Rightarrow> error + real list" where
  "compute_dsm_cv d folds metric kwargs =
     (case reshape_folds folds of
        Inl e \<Rightarrow> Inl e
      | Inr X \<Rightarrow>
          (let n_folds = length X; n_items = length (hd X); n_features = length (hd (hd X)) in
           if n_features = 1 \<and> metric \<in> set [''correlation'', ''cosine'']
           then Inl (ValueError arity_msg)
           else if n_folds = 1 \<and> n_features \<noteq> 0
           then Inl (NonFinite ''invalid value encountered in divide'')
           else
             (let dsm = replicate ((n_items * (n_items - 1)) div 2) 0;
                  X_mean = mean_axis0 X
              in Inr (map (\<lambda>x. x / real n_folds)
                       (cv_loop d metric kwargs X X_mean n_folds [0..<n_folds] dsm)))))"

subsection \<open>Temporal patch centers\<close>

text \<open>
  Python's \<^verbatim>\<open>range(start, stop)\<close> with the default step 1, turned into a list:
  it counts upwards from \<open>start\<close> and stops before \<open>stop\<close>.
\<close>

function py_range :: "int \<Rightarrow> int \<Rightarrow> int list" where
  "py_range start stop = (if start < stop then start # py_range (start + 1) stop else [])"
  by pat_completeness auto
termination
  by (relation "measure (\<lambda>(start, stop). nat (stop - start))") auto

declare py_range.simps [simp del]

text \<open>
  \<^verbatim>\<open>
  def _get_time_patch_centers(n_samples, temporal_radius):
      return list(range(temporal_radius, n_samples - temporal_radius + 1))
  \<close>
\<close>

definition get_time_patch_centers :: "int \<Rightarrow> int \<Rightarrow> int list" where
  "get_time_patch_centers n_samples temporal_radius =
     py_range temporal_radius (n_samples - temporal_radius + 1)"

subsection \<open>_ensure_condensed\<close>

text \<open>
  The argument is an array or a Python list of arguments. scipy's \<^verbatim>\<open>squareform\<close> is
  a parameter. The messages are the string literals of the source, to which no
  \<^verbatim>\<open>% var_name\<close> is applied.
  \<^verbatim>\<open>
  if type(dsm) is list:
      return [_ensure_condensed(d, var_name) for d in dsm]
  if dsm.ndim == 2:
      if dsm.shape[0] != dsm.shape[1]:
          raise ValueError('Invalid dimensions for "%s". ...')
      dsm = distance.squareform(dsm)
  elif dsm.ndim != 1:
      raise ValueError('Invalid number of dimensions for "%s". ...')
  return dsm
  \<close>
\<close>

datatype dsm_arg = Arr nd | PyList "dsm_arg list"

definition dims_msg :: string where
  \<open>dims_msg = ''Invalid dimensions for "%s". The DSM should either be a square matrix, or a one dimensional array when in condensed form.''\<close>

definition ndims_msg :: string where
  \<open>ndims_msg = ''Invalid number of dimensions for "%s". The DSM should either be a square matrix, or a one dimensional array when in condensed form.''\<close>

fun ensure_condensed :: "(nd \<Rightarrow> error + nd) \<Rightarrow> dsm_arg \<Rightarrow> string \<Rightarrow> error + dsm_arg"
  and ensure_condensed_each :: "(nd \<Rightarrow> error + nd) \<Rightarrow> dsm_arg list \<Rightarrow> string \<Rightarrow> error + dsm_arg list"
  where
  "ensure_condensed squareform (PyList ds) var_name =
     (case ensure_condensed_each squareform ds var_name of
        Inl e \<Rightarrow> Inl e
      | Inr rs \<Rightarrow> Inr (PyList rs))"
| "ensure_condensed squareform (Arr dsm) var_name =
     (let shp = shape_of dsm in
      if length shp = 2 then
        (if shp ! 0 \<noteq> shp ! 1 then Inl (ValueError dims_msg)
         else (case squareform dsm of Inl e \<Rightarrow> Inl e | Inr c \<Rightarrow> Inr (Arr c)))
      else if length shp \<noteq> 1 then Inl (ValueError ndims_msg)
      else Inr (Arr dsm))"
| "ensure_condensed_each squareform [] var_name = Inr []"
| "ensure_condensed_each squareform (d # ds) var_name =
     (case ensure_condensed squareform d var_name of
        Inl e \<Rightarrow> Inl e
      | Inr r \<Rightarrow>
          (case ensure_condensed_each squareform ds var_name of
             Inl e \<Rightarrow> Inl e
           | Inr rs \<Rightarrow> Inr (r # rs)))"


subsection \<open>Searchlight patches\<close>

text \<open>\<^verbatim>\<open>np.flatnonzero(mask)\<close>: the positions of the true entries, ascending.\<close>

fun flatnonzero_from :: "nat \<Rightarrow> bool list \<Rightarrow> nat list" where
  "flatnonzero_from i [] = []"
| "flatnonzero_from i (b # bs) =
     (if b then i # flatnonzero_from (Suc i) bs else flatnonzero_from (Suc i) bs)"

definition flatnonzero :: "bool list \<Rightarrow> nat list" where
  "flatnonzero bs = flatnonzero_from 0 bs"

definition neighborhood :: "real list \<Rightarrow> real \<Rightarrow> nat list" where
  "neighborhood series_dist spatial_radius =
     flatnonzero (map (\<lambda>x. x < spatial_radius) series_dist)"

definition too_many_indices :: error where
  "too_many_indices = IndexError ''too many indices for array''"

text \<open>One leading \<^verbatim>\<open>:\<close> of an index: the rest of the index applies to every sub-array.\<close>

definition under_axis :: "(nd \<Rightarrow> error + nd) \<Rightarrow> nd \<Rightarrow> error + nd" where
  "under_axis f a =
     (case a of
        Sc x \<Rightarrow> Inl too_many_indices
      | Nd xs \<Rightarrow> (case map_err f xs of Inl e \<Rightarrow> Inl e | Inr ys \<Rightarrow> Inr (Nd ys)))"

text \<open>An index array on the first axis: \<^verbatim>\<open>a[idx]\<close>.\<close>

definition take_idx :: "nat list \<Rightarrow> nd \<Rightarrow> error + nd" where
  "take_idx idx a =
     (case a of
        Sc x \<Rightarrow> Inl too_many_indices
      | Nd xs \<Rightarrow>
          if list_all (\<lambda>i. i < length xs) idx then Inr (Nd (map (\<lambda>i. xs ! i) idx))
          else Inl (IndexError ''index is out of bounds''))"

text \<open>
  Python's slice \<^verbatim>\<open>xs[start:stop]\<close>: a negative bound counts from the end, and both
  bounds are clipped to the list.
\<close>

definition slice_bound :: "int \<Rightarrow> nat \<Rightarrow> nat" where
  "slice_bound i n = (if i < 0 then nat (max 0 (i + int n)) else min (nat i) n)"

definition py_slice :: "int \<Rightarrow> int \<Rightarrow> 'a list \<Rightarrow> 'a list" where
  "py_slice start stop xs =
     (let lo = slice_bound start (length xs); hi = slice_bound stop (length xs)
      in take (hi - lo) (drop lo xs))"

text \<open>A slice of the last axis: \<^verbatim>\<open>a[..., start:stop]\<close>.\<close>

fun slice_last_axis :: "int \<Rightarrow> int \<Rightarrow> nd \<Rightarrow> nd" where
  "slice_last_axis start stop (Sc x) = Sc x"
| "slice_last_axis start stop (Nd xs) =
     (if list_all is_scalar xs then Nd (py_slice start stop xs)
      else Nd (map (slice_last_axis start stop) xs))"

definition slice_last :: "int \<Rightarrow> int \<Rightarrow> nd \<Rightarrow> error + nd" where
  "slice_last start stop a =
     (case a of Sc x \<Rightarrow> Inl too_many_indices | Nd xs \<Rightarrow> Inr (slice_last_axis start stop a))"

text \<open>\<^verbatim>\<open>folds[:, :, idx]\<close>.\<close>

definition spatial_patch :: "nd \<Rightarrow> nat list \<Rightarrow> error + nd" where
  "spatial_patch folds idx = under_axis (under_axis (take_idx idx)) folds"

text \<open>\<^verbatim>\<open>folds[:, :, idx, ..., start:stop]\<close>.\<close>

definition spattemp_patch :: "nd \<Rightarrow> nat list \<Rightarrow> int \<Rightarrow> int \<Rightarrow> error + nd" where
  "spattemp_patch folds idx start stop =
     under_axis (under_axis
       (\<lambda>item. bind_err (take_idx idx item) (under_axis (slice_last start stop)))) folds"

type_synonym 'o dsm_func = "nd \<Rightarrow> string \<Rightarrow> 'o \<Rightarrow> error + real list"

text \<open>
  \<^verbatim>\<open>dsm_func(patch, dist_metric, **dist_params)\<close>: the options are unpacked before the
  call, and \<^verbatim>\<open>None\<close> is not a mapping.
\<close>

definition not_a_mapping :: error where
  "not_a_mapping = TypeError ''argument after ** must be a mapping, not NoneType''"

definition call_with :: "'o dsm_func \<Rightarrow> nd \<Rightarrow> string \<Rightarrow> 'o option \<Rightarrow> error + real list" where
  "call_with dsm_func patch dist_metric dist_params =
     (case dist_params of
        None \<Rightarrow> Inl not_a_mapping
      | Some kwargs \<Rightarrow> dsm_func patch dist_metric kwargs)"

text \<open>
  What a generator does when it is consumed to its end: the values it yields, in order,
  and how it ends, by returning (\<open>None\<close>) or by an exception. A request for the next
  element runs the body up to the next \<^verbatim>\<open>yield\<close>, so an exception ends the sequence
  after the values yielded before it.
\<close>

type_synonym generated = "real list list \<times> error option"

text \<open>\<^verbatim>\<open>for x in xs: yield body(x)\<close>.\<close>

fun yield_each :: "('a \<Rightarrow> error + real list) \<Rightarrow> 'a list \<Rightarrow> generated" where
  "yield_each body [] = ([], None)"
| "yield_each body (x # xs) =
     (case body x of
        Inl e \<Rightarrow> ([], Some e)
      | Inr dsm \<Rightarrow> (case yield_each body xs of (dsms, ending) \<Rightarrow> (dsm # dsms, ending)))"

text \<open>
  The fold builder \<^verbatim>\<open>_create_folds\<close> lives in another module; it enters as the
  parameter \<open>create_folds\<close>, from the data, the labels, the fold count and (in the
  spatio-temporal generator only) the number of jobs to the fold tensor or an exception.
\<close>

type_synonym fold_builder = "nd \<Rightarrow> int list option \<Rightarrow> int \<Rightarrow> int option \<Rightarrow> error + nd"

definition choose_dsm_func :: "'o metric_lib \<Rightarrow> nat \<Rightarrow> 'o dsm_func" where
  "choose_dsm_func d len_folds =
     (if len_folds = 1 then compute_dsm d else compute_dsm_cv d)"

text \<open>An exception in the body of a generator, before any \<^verbatim>\<open>yield\<close>.\<close>

definition raising :: "error + generated \<Rightarrow> generated" where
  "raising r = (case r of Inl e \<Rightarrow> ([], Some e) | Inr g \<Rightarrow> g)"

subsection \<open>dsm_spat\<close>

text \<open>
  The progress bar (\<^verbatim>\<open>verbose\<close>) only reports; it is left out of all three generators.
  \<^verbatim>\<open>
  folds = _create_folds(data, y, n_folds)
  if len(folds) == 1:
      dsm_func = compute_dsm
  else:
      dsm_func = compute_dsm_cv
  for series_dist in dist:
      patch = folds[:, :, np.flatnonzero(series_dist < spatial_radius)]
      yield dsm_func(patch, dist_metric, **dist_params)
  \<close>
\<close>

definition dsm_spat ::
  "'o metric_lib \<Rightarrow> fold_builder \<Rightarrow> nd \<Rightarrow> real list list \<Rightarrow> real \<Rightarrow> string \<Rightarrow> 'o option \<Rightarrow>
   int list option \<Rightarrow> int \<Rightarrow> generated" where
  "dsm_spat d create_folds data dist_mat spatial_radius dist_metric dist_params y n_folds =
     raising
       (bind_err (create_folds data y n_folds None) (\<lambda>folds.
        bind_err (py_len folds) (\<lambda>len_folds.
        Inr (yield_each
               (\<lambda>series_dist.
                  bind_err (spatial_patch folds (neighborhood series_dist spatial_radius))
                    (\<lambda>patch. call_with (choose_dsm_func d len_folds) patch dist_metric dist_params))
               dist_mat))))"

subsection \<open>dsm_temp\<close>

text \<open>
  \<^verbatim>\<open>
  n_samples = data.shape[-1]
  centers = _get_time_patch_centers(n_samples, temporal_radius)
  folds = _create_folds(data, y, n_folds)
  if len(folds) == 1: ... (as above)
  for center in centers:
      patch = folds[..., center - temporal_radius:center + temporal_radius]
      yield dsm_func(patch, dist_metric, **dist_params)
  \<close>
\<close>

definition dsm_temp ::
  "'o metric_lib \<Rightarrow> fold_builder \<Rightarrow> nd \<Rightarrow> int \<Rightarrow> string \<Rightarrow> 'o option \<Rightarrow>
   int list option \<Rightarrow> int \<Rightarrow> generated" where
  "dsm_temp d create_folds data temporal_radius dist_metric dist_params y n_folds =
     raising
       (if shape_of data = [] then Inl (IndexError ''tuple index out of range'')
        else
          (let n_samples = int (last (shape_of data));
               centers = get_time_patch_centers n_samples temporal_radius
           in bind_err (create_folds data y n_folds None) (\<lambda>folds.
              bind_err (py_len folds) (\<lambda>len_folds.
              Inr (yield_each
                     (\<lambda>center.
                        bind_err (slice_last (center - temporal_radius)
                                    (center + temporal_radius) folds)
                          (\<lambda>patch. call_with (choose_dsm_func d len_folds) patch dist_metric
                                      dist_params))
                     centers)))))"

subsection \<open>dsm_spattemp\<close>

text \<open>
  \<^verbatim>\<open>
  n_series, n_samples = data.shape[1:]
  folds = _create_folds(data, y, n_folds, n_jobs)
  centers = _get_time_patch_centers(n_samples, temporal_radius)
  def patch_iterator():
      for series in range(n_series):
          for sample in centers:
              patch = folds[:, :, np.flatnonzero(dist[series] < spatial_radius), ...,
                            sample - temporal_radius:sample + temporal_radius]
              yield patch
  if len(folds) == 1: ... (as above)
  dsm_gen = Parallel(n_jobs)(
      delayed(dsm_func)(patch, dist_metric, **dist_params)
      for patch in patch_iterator())
  yield next(dsm_gen)
  \<close>
  joblib's \<^verbatim>\<open>Parallel\<close> is not part of the module. It consumes the generator of calls,
  runs them and hands back their results in the order of the calls; an exception of a call,
  or of the generator expression that builds it, comes out of \<^verbatim>\<open>Parallel\<close>. The model
  runs the calls one after the other, as \<^verbatim>\<open>n_jobs=1\<close> does. What \<^verbatim>\<open>Parallel\<close> hands
  back is a parameter: a list, as joblib does unless asked otherwise, on which
  \<^verbatim>\<open>next\<close> raises a TypeError, or an iterator, of which \<^verbatim>\<open>next\<close> takes the first
  element; on an iterator without elements \<^verbatim>\<open>next\<close> raises StopIteration, which a
  generator turns into a RuntimeError.
\<close>

datatype parallel_result = AsList | AsIterator

definition row_of :: "real list list \<Rightarrow> nat \<Rightarrow> error + real list" where
  "row_of dist_mat series =
     (if series < length dist_mat then Inr (dist_mat ! series)
      else Inl (IndexError ''index is out of bounds''))"

definition patch_grid :: "nat \<Rightarrow> int list \<Rightarrow> (nat \<times> int) list" where
  "patch_grid n_series centers =
     concat (map (\<lambda>series. map (\<lambda>sample. (series, sample)) centers) [0..<n_series])"

definition next_of :: "parallel_result \<Rightarrow> real list list \<Rightarrow> generated" where
  "next_of kind results =
     (case kind of
        AsList \<Rightarrow> ([], Some (TypeError '''list' object is not an iterator''))
      | AsIterator \<Rightarrow>
          (case results of
             [] \<Rightarrow> ([], Some (RuntimeError ''generator raised StopIteration''))
           | r # rs \<Rightarrow> ([r], None)))"

definition dsm_spattemp ::
  "'o metric_lib \<Rightarrow> fold_builder \<Rightarrow> parallel_result \<Rightarrow> nd \<Rightarrow> real list list \<Rightarrow> real \<Rightarrow> int \<Rightarrow>
   string \<Rightarrow> 'o option \<Rightarrow> int list option \<Rightarrow> int \<Rightarrow> int \<Rightarrow> generated" where
  "dsm_spattemp d create_folds kind data dist_mat spatial_radius temporal_radius dist_metric
     dist_params y n_folds n_jobs =
     raising
       (case tl (shape_of data) of
          [n_series, n_samples] \<Rightarrow>
            bind_err (create_folds data y n_folds (Some n_jobs)) (\<lambda>folds.
            let centers = get_time_patch_centers (int n_samples) temporal_radius in
            bind_err (py_len folds) (\<lambda>len_folds.
            bind_err
              (map_err
                 (\<lambda>(series, sample).
                    bind_err (row_of dist_mat series) (\<lambda>series_dist.
                    bind_err (spattemp_patch folds (neighborhood series_dist spatial_radius)
                                (sample - temporal_radius) (sample + temporal_radius))
                      (\<lambda>patch. call_with (choose_dsm_func d len_folds) patch dist_metric
                                  dist_params)))
                 (patch_grid n_series centers))
              (\<lambda>results. Inr (next_of kind results))))
        | _ \<Rightarrow> Inl (ValueError ''wrong number of values to unpack''))"

text \<open>
  Two fold builders and a data set to run the generators on: the builder of the
  uncrossvalidated case, which wraps the data into one fold, and one that returns the
  data as two identical folds. The data are 3 items on 1 series with 4 samples.
\<close>

definition wrap_folds :: fold_builder where
  "wrap_folds data y n_folds n_jobs = Inr (Nd [data])"

definition twice_folds :: fold_builder where
  "twice_folds data y n_folds n_jobs = Inr (Nd [data, data])"

definition demo :: nd where
  "demo = Nd [Nd [Nd [Sc 1, Sc 2, Sc 3, Sc 4]], Nd [Nd [Sc 2, Sc 3, Sc 4, Sc 5]], Nd [Nd [Sc 10, Sc 9, Sc 8, Sc 7]]]"


section \<open>Properties\<close>

subsection \<open>The train estimate of the cross-validation\<close>

text \<open>
  C1 says that \<open>X_train = X_mean - (X_mean - X_test) / (n_folds - 1)\<close> is the mean of
  the folds other than the test fold. Evaluated on two folds of one item with one
  feature, \<open>0\<close> and \<open>2\<close>, with fold 0 as the test fold: the mean is \<open>1\<close>, the code's
  train estimate is \<open>1 - (1 - 0) / 1 = 0\<close>, the test fold itself, whereas the mean of
  the other fold is \<open>2\<close>.
\<close>

theorem C1_train_estimate_two_folds:
  "x_train (mean_axis0 [[[0]], [[2]]]) ([[[0]], [[2]]] ! 0) 2 = [[0]] \<and>
   mean_axis0 (take 0 [[[0]], [[2]]] @ drop (Suc 0) [[[0]], [[2]]]) = [[2]]"
  by (simp add: x_train_def mean_axis0_def)

subsection \<open>Shapes and means\<close>

lemma flat_has_shape: "has_shape ns a \<Longrightarrow> length (flat a) = prod_list ns"
proof (induction ns a rule: has_shape.induct)
  case (2 n ns xs)
  then have "\<forall>x\<in>set xs. length (flat x) = prod_list ns"
    by (auto simp: list_all_iff)
  then have "map (length \<circ> flat) xs = replicate (length xs) (prod_list ns)"
    by (simp add: map_replicate_const[symmetric] cong: map_cong)
  then show ?case using 2 by (simp add: length_concat sum_list_replicate)
qed simp_all







lemma hd_rect: "rect n m A \<Longrightarrow> 0 < n \<Longrightarrow> length (hd A) = m"
  by (cases A) (auto simp: rect_def)








lemma rect_flat_rows:
  assumes "has_shape (n # ns) a"
  obtains rows where "a = Nd rows" "length rows = n" "rect n (prod_list ns) (map flat rows)"
proof -
  from assms obtain rows where a: "a = Nd rows"
    by (cases a) simp_all
  with assms have len: "length rows = n" and all: "list_all (has_shape ns) rows"
    by simp_all
  have "rect n (prod_list ns) (map flat rows)"
    using len all by (simp add: rect_def list_all_iff flat_has_shape)
  with a len show thesis by (rule that)
qed




subsection \<open>Identical folds\<close>






subsection \<open>A single feature\<close>

text \<open>
  C6: for an item array and a fold tensor whose flattened feature dimensionality is 1,
  \<^const>\<open>compute_dsm\<close> and \<^const>\<open>compute_dsm_cv\<close> raise a ValueError under the metrics
  \<open>correlation\<close> and \<open>cosine\<close>, and its message proposes \<open>sqeuclidean\<close>. Under
  \<open>sqeuclidean\<close> neither raises: \<^const>\<open>compute_dsm\<close> returns the pairwise distances,
  \<^const>\<open>compute_dsm_cv\<close> returns a DSM for two folds or more, and for a single fold it
  goes through the division by \<open>n_folds - 1 = 0\<close>, where numpy warns and returns nan
  without raising.
\<close>

theorem C6_single_feature:
  assumes data: "has_shape (n # ns) data" and folds: "has_shape (F # n # ns) folds"
    and pos: "0 < n" "0 < F" and one: "prod_list ns = 1"
  shows "(metric = ''correlation'' \<or> metric = ''cosine'' \<longrightarrow>
            compute_dsm d data metric kwargs = Inl (ValueError arity_msg) \<and>
            compute_dsm_cv d folds metric kwargs = Inl (ValueError arity_msg)) \<and>
         str_in ''Consider using 'sqeuclidean' instead'' arity_msg \<and>
         (\<exists>X. reshape_items data = Inr X \<and>
              compute_dsm d data ''sqeuclidean'' kwargs = Inr (pdist d X ''sqeuclidean'' kwargs)) \<and>
         (2 \<le> F \<longrightarrow> (\<exists>dsm. compute_dsm_cv d folds ''sqeuclidean'' kwargs = Inr dsm)) \<and>
         (F = 1 \<longrightarrow> compute_dsm_cv d folds ''sqeuclidean'' kwargs
                     = Inl (NonFinite ''invalid value encountered in divide''))"
proof -
  from data obtain rows where d1: "data = Nd rows" and lr: "length rows = n"
    and rr: "rect n (prod_list ns) (map flat rows)"
    by (rule rect_flat_rows)
  have rne: "rows \<noteq> []" using lr pos by auto
  have nf: "length (hd (map flat rows)) = 1"
    using hd_rect [OF rr pos(1)] one by simp
  have X: "reshape_items data = Inr (map flat rows)"
    using rne by (simp add: d1 reshape_items_def)
  from folds obtain fs where f1: "folds = Nd fs" and lf: "length fs = F"
    and allf: "list_all (has_shape (n # ns)) fs"
    by (cases folds) simp_all
  from lf pos obtain f fs' where fs: "fs = f # fs'"
    by (cases fs) simp_all
  with allf have "has_shape (n # ns) f" by simp
  then obtain items where f: "f = Nd items" and li: "length items = n"
    and ri: "rect n (prod_list ns) (map flat items)"
    by (rule rect_flat_rows)
  have ine: "items \<noteq> []" using li pos by auto
  define X3 where "X3 = map (\<lambda>f. case f of Sc x \<Rightarrow> [] | Nd its \<Rightarrow> map flat its) fs"
  have R: "reshape_folds folds = Inr X3"
    using ine by (simp add: f1 fs f reshape_folds_def X3_def)
  have lX: "length X3 = F" by (simp add: X3_def lf)
  have hX: "hd X3 = map flat items" by (simp add: X3_def fs f)
  have nf3: "length (hd (hd X3)) = 1"
    using hd_rect [OF ri pos(1)] one by (simp add: hX)
  have a: "metric = ''correlation'' \<or> metric = ''cosine'' \<longrightarrow>
            compute_dsm d data metric kwargs = Inl (ValueError arity_msg) \<and>
            compute_dsm_cv d folds metric kwargs = Inl (ValueError arity_msg)"
    using nf nf3 by (auto simp: compute_dsm_def compute_dsm_cv_def X R Let_def)
  have b: "str_in ''Consider using 'sqeuclidean' instead'' arity_msg"
    by (simp add: arity_msg_def)
  have c: "\<exists>X. reshape_items data = Inr X \<and>
              compute_dsm d data ''sqeuclidean'' kwargs = Inr (pdist d X ''sqeuclidean'' kwargs)"
    by (simp add: compute_dsm_def X Let_def)
  have e: "2 \<le> F \<longrightarrow> (\<exists>dsm. compute_dsm_cv d folds ''sqeuclidean'' kwargs = Inr dsm)"
    by (simp add: compute_dsm_cv_def R Let_def lX)
  have g: "F = 1 \<longrightarrow> compute_dsm_cv d folds ''sqeuclidean'' kwargs
                     = Inl (NonFinite ''invalid value encountered in divide'')"
    using nf3 by (simp add: compute_dsm_cv_def R Let_def lX)
  show ?thesis using a b c e g by blast
qed

theorem C6_single_feature_witness:
  "has_shape [2, 1] (Nd [Nd [Sc 1], Nd [Sc 4]]) \<and>
   has_shape [2, 2, 1] (Nd [Nd [Nd [Sc 1], Nd [Sc 4]], Nd [Nd [Sc 1], Nd [Sc 4]]]) \<and>
   prod_list [1::nat] = 1 \<and>
   compute_dsm catalog (Nd [Nd [Sc 1], Nd [Sc 4]]) ''correlation'' ()
     = Inl (ValueError arity_msg) \<and>
   compute_dsm_cv catalog (Nd [Nd [Nd [Sc 1], Nd [Sc 4]], Nd [Nd [Sc 1], Nd [Sc 4]]])
     ''correlation'' () = Inl (ValueError arity_msg) \<and>
   compute_dsm catalog (Nd [Nd [Sc 1], Nd [Sc 4]]) ''sqeuclidean'' () = Inr [9] \<and>
   compute_dsm_cv catalog (Nd [Nd [Nd [Sc 1], Nd [Sc 4]], Nd [Nd [Sc 1], Nd [Sc 4]]])
     ''sqeuclidean'' () = Inr [9]"
proof -
  let ?data = "Nd [Nd [Sc 1], Nd [Sc 4]]"
  let ?folds = "Nd [?data, ?data]"
  have s1: "has_shape [2, 1] ?data" and s2: "has_shape [2, 2, 1] ?folds"
    by simp_all
  have raised: "compute_dsm catalog ?data ''correlation'' () = Inl (ValueError arity_msg) \<and>
                compute_dsm_cv catalog ?folds ''correlation'' () = Inl (ValueError arity_msg)"
    using C6_single_feature [OF s1 s2, of "''correlation''" catalog "()"] by simp
  have v1: "compute_dsm catalog ?data ''sqeuclidean'' () = Inr [9]"
    by (simp add: compute_dsm_def reshape_items_def pdist_def catalog_def sqeuclidean_def
        upt_rec [of 0] upt_rec [of 1] upt_rec [of 2])
  have v2: "compute_dsm_cv catalog ?folds ''sqeuclidean'' () = Inr [9]"
    by (simp add: compute_dsm_cv_def reshape_folds_def mean_axis0_def x_train_def cdist_def
        triu1_def catalog_def sqeuclidean_def
        upt_rec [of 0] upt_rec [of 1] upt_rec [of 2])
  show ?thesis
    using s1 s2 raised v1 v2 by simp
qed


subsection \<open>The error messages of _ensure_condensed\<close>

text \<open>
  C9 says that the error of a rejected input names the input. The code builds both
  messages with a \<^verbatim>\<open>"%s"\<close> for the name and never fills it in: for a 2 x 3 matrix and
  for a 3-dimensional array passed as \<open>model_dsm\<close>, the messages hold the placeholder
  and not the name, whatever \<^verbatim>\<open>squareform\<close> does.
\<close>

theorem C9_message_keeps_placeholder:
  \<open>ensure_condensed squareform (Arr (Nd [Nd [Sc 0, Sc 0, Sc 0], Nd [Sc 0, Sc 0, Sc 0]])) ''model_dsm''
     = Inl (ValueError dims_msg) \<and>
   ensure_condensed squareform (Arr (Nd [Nd [Nd [Sc 0]]])) ''model_dsm''
     = Inl (ValueError ndims_msg) \<and>
   str_in ''"%s"'' dims_msg \<and> str_in ''"%s"'' ndims_msg \<and>
   \<not> str_in ''model_dsm'' dims_msg \<and> \<not> str_in ''model_dsm'' ndims_msg\<close>
  by (simp add: dims_msg_def ndims_msg_def)


subsection \<open>Spatial neighborhoods\<close>

lemma flatnonzero_from_set:
  "set (flatnonzero_from i bs) = {i + k |k. k < length bs \<and> bs ! k}"
proof (induction bs arbitrary: i)
  case Nil
  show ?case by simp
next
  case (Cons b bs)
  have split: "{i + k |k. k < length (b # bs) \<and> (b # bs) ! k}
      = (if b then {i} else {}) \<union> {Suc i + k |k. k < length bs \<and> bs ! k}"
  proof (intro set_eqI iffI)
    fix x assume "x \<in> {i + k |k. k < length (b # bs) \<and> (b # bs) ! k}"
    then obtain k where k: "x = i + k" "k < length (b # bs)" "(b # bs) ! k" by blast
    show "x \<in> (if b then {i} else {}) \<union> {Suc i + k |k. k < length bs \<and> bs ! k}"
    proof (cases k)
      case 0
      with k show ?thesis by simp
    next
      case (Suc k')
      with k have "x = Suc i + k'" "k' < length bs" "bs ! k'" by simp_all
      then show ?thesis by blast
    qed
  next
    fix x assume "x \<in> (if b then {i} else {}) \<union> {Suc i + k |k. k < length bs \<and> bs ! k}"
    then consider "b" "x = i" | k where "x = Suc i + k" "k < length bs" "bs ! k"
      by (auto split: if_splits)
    then show "x \<in> {i + k |k. k < length (b # bs) \<and> (b # bs) ! k}"
    proof cases
      case 1
      then have "x = i + 0 \<and> 0 < length (b # bs) \<and> (b # bs) ! 0" by simp
      then show ?thesis by blast
    next
      case 2
      then have "x = i + Suc k \<and> Suc k < length (b # bs) \<and> (b # bs) ! Suc k" by simp
      then show ?thesis by blast
    qed
  qed
  show ?case
    by (simp only: split) (simp add: Cons.IH)
qed

lemma flatnonzero_from_lower: "x \<in> set (flatnonzero_from i bs) \<Longrightarrow> i \<le> x"
  by (auto simp: flatnonzero_from_set)

lemma flatnonzero_from_sorted: "sorted_wrt (<) (flatnonzero_from i bs)"
proof (induction bs arbitrary: i)
  case Nil
  show ?case by simp
next
  case (Cons b bs)
  have "\<forall>x\<in>set (flatnonzero_from (Suc i) bs). i < x"
    by (auto dest: flatnonzero_from_lower)
  then show ?case using Cons.IH [of "Suc i"] by simp
qed

lemma neighborhood_set:
  "set (neighborhood series_dist r) = {t. t < length series_dist \<and> series_dist ! t < r}"
  by (auto simp: neighborhood_def flatnonzero_def flatnonzero_from_set)


text \<open>
  C5, as stated: for every non-negative radius the center series belongs to its own
  neighborhood. With radius 0 the comparison \<open>0 < 0\<close> fails: the neighborhood of the
  only series of a one-series distance matrix is empty.
\<close>

theorem C5_radius_zero_counterexample:
  "(0::real) \<le> 0 \<and> [0::real] ! 0 = 0 \<and> neighborhood [0] 0 = [] \<and>
   0 \<notin> set (neighborhood [0] 0)"
  by (simp add: neighborhood_def flatnonzero_def)

text \<open>
  C5, amended: the neighborhood that both generators select (\<^const>\<open>dsm_spat\<close> from the
  row of the center series, \<^const>\<open>dsm_spattemp\<close> from \<open>dist[series]\<close>) holds exactly
  the series whose distance to the center is strictly below the radius, in ascending
  order; the center series \<open>s\<close> belongs to it exactly when \<open>dist[s][s] < spatial_radius\<close>,
  so whenever its distance to itself is 0 and the radius is positive. The patch holds
  these series of every item.
\<close>

theorem C5_neighborhood:
  "set (neighborhood series_dist spatial_radius)
     = {t. t < length series_dist \<and> series_dist ! t < spatial_radius} \<and>
   sorted_wrt (<) (neighborhood series_dist spatial_radius) \<and>
   (s < length series_dist \<longrightarrow>
      (s \<in> set (neighborhood series_dist spatial_radius)) = (series_dist ! s < spatial_radius)) \<and>
   (s < length series_dist \<and> series_dist ! s = 0 \<and> 0 < spatial_radius \<longrightarrow>
      s \<in> set (neighborhood series_dist spatial_radius)) \<and>
   (length series_dist \<le> length series \<longrightarrow>
      take_idx (neighborhood series_dist spatial_radius) (Nd series)
        = Inr (Nd (map (\<lambda>t. series ! t) (neighborhood series_dist spatial_radius))))"
proof -
  have sorted: "sorted_wrt (<) (neighborhood series_dist spatial_radius)"
    by (simp add: neighborhood_def flatnonzero_def flatnonzero_from_sorted)
  have selected: "take_idx (neighborhood series_dist spatial_radius) (Nd series)
        = Inr (Nd (map (\<lambda>t. series ! t) (neighborhood series_dist spatial_radius)))"
    if "length series_dist \<le> length series"
    using that by (auto simp: take_idx_def list_all_iff neighborhood_set)
  show ?thesis
    using sorted selected by (simp add: neighborhood_set)
qed



theorem C5_neighborhood_witness:
  "neighborhood [1, 0, 1, 2] (3 / 2) = [0, 1, 2] \<and>
   set (neighborhood [1, 0, 1, 2] (3 / 2)) = {t. t < length [1, 0, 1, 2::real] \<and> [1, 0, 1, 2::real] ! t < 3 / 2} \<and>
   (1::nat) < length [1, 0, 1, 2::real] \<and> [1, 0, 1, 2::real] ! 1 = 0 \<and> (0::real) < 3 / 2 \<and>
   1 \<in> set (neighborhood [1, 0, 1, 2] (3 / 2))"
  using C5_neighborhood [of "[1, 0, 1, 2]" "3 / 2" 1]
  by (simp add: neighborhood_def flatnonzero_def)


subsection \<open>What the generators yield\<close>

lemma raising_Inl: "raising (Inl e) = ([], Some e)"
  by (simp add: raising_def)

lemma fst_raising_bind:
  "fst (raising (bind_err m f)) = (case m of Inl e \<Rightarrow> [] | Inr x \<Rightarrow> fst (raising (f x)))"
  by (cases m) (simp_all add: bind_err_def raising_def)

lemma next_of_short: "length (fst (next_of kind results)) \<le> Suc 0"
  by (cases kind; cases results) (simp_all add: next_of_def)

lemma short_bind:
  assumes "\<And>x. length (fst (raising (f x))) \<le> Suc 0"
  shows "length (fst (raising (bind_err m f))) \<le> Suc 0"
  using assms by (cases m) (simp_all add: bind_err_def raising_def)

lemma short_next: "length (fst (raising (Inr (next_of kind results)))) \<le> Suc 0"
  by (simp add: raising_def next_of_short)


text \<open>
  C2 says that \<^const>\<open>dsm_spattemp\<close> yields one DSM for each of the \<open>S * C\<close> patches.
  The code ends with a single \<^verbatim>\<open>yield next(dsm_gen)\<close>: whatever the input and whatever
  \<^verbatim>\<open>Parallel\<close> hands back, it yields at most one DSM. On a list, \<^verbatim>\<open>next\<close> raises
  and it yields none.
\<close>

theorem C2_spattemp_at_most_one:
  "length (fst (dsm_spattemp d create_folds kind data dist_mat spatial_radius temporal_radius
     dist_metric dist_params y n_folds n_jobs)) \<le> 1"
proof -
  consider n_series n_samples where "tl (shape_of data) = [n_series, n_samples]"
    | "\<forall>n_series n_samples. tl (shape_of data) \<noteq> [n_series, n_samples]"
    by blast
  then show ?thesis
  proof cases
    case 1
    show ?thesis
      unfolding dsm_spattemp_def 1 list.case Let_def One_nat_def
      by (intro short_bind short_next)
  next
    case 2
    then have "dsm_spattemp d create_folds kind data dist_mat spatial_radius temporal_radius
        dist_metric dist_params y n_folds n_jobs
      = raising (Inl (ValueError ''wrong number of values to unpack''))"
      unfolding dsm_spattemp_def by (simp split: list.splits)
    then show ?thesis by (simp add: raising_Inl)
  qed
qed


text \<open>
  For 1 series and 4 samples with radius 1 there are 3 patches; the generator yields the
  DSM of the first one (from an iterator) or raises (from a list).
\<close>

theorem C2_spattemp_at_most_one_witness:
  "length (patch_grid 1 (get_time_patch_centers 4 1)) = 3 \<and>
   dsm_spattemp catalog twice_folds AsIterator demo [[0]] 1 1 ''sqeuclidean'' (Some ()) None 2 1
     = ([[2, 130, 100]], None) \<and>
   dsm_spattemp catalog twice_folds AsList demo [[0]] 1 1 ''sqeuclidean'' (Some ()) None 2 1
     = ([], Some (TypeError '''list' object is not an iterator'')) \<and>
   length (fst (dsm_spattemp catalog twice_folds AsIterator demo [[0]] 1 1 ''sqeuclidean''
     (Some ()) None 2 1)) \<le> 1"
proof -
  have grid: "length (patch_grid 1 (get_time_patch_centers 4 1)) = 3"
    by code_simp
  have it: "dsm_spattemp catalog twice_folds AsIterator demo [[0]] 1 1 ''sqeuclidean'' (Some ())
      None 2 1 = ([[2, 130, 100]], None)"
    by code_simp
  have li: "dsm_spattemp catalog twice_folds AsList demo [[0]] 1 1 ''sqeuclidean'' (Some ())
      None 2 1 = ([], Some (TypeError '''list' object is not an iterator''))"
    by code_simp
  show ?thesis
    using grid it li
      C2_spattemp_at_most_one [of catalog twice_folds AsIterator demo "[[0]]" 1 1
        "''sqeuclidean''" "Some ()" None 2 1]
    by simp
qed

subsection \<open>The default options\<close>

lemma call_with_None: "call_with f patch metric None = Inl not_a_mapping"
  by (simp add: call_with_def)

lemma yield_each_never:
  assumes "\<And>x. \<exists>e. body x = Inl e"
  shows "fst (yield_each body xs) = []"
proof (cases xs)
  case Nil
  then show ?thesis by simp
next
  case (Cons x xs')
  from assms obtain e where "body x = Inl e" by blast
  with Cons show ?thesis by simp
qed

lemma bind_call_None:
  "\<exists>e. bind_err m (\<lambda>patch. call_with f patch metric None) = Inl e"
  by (cases m) (simp_all add: bind_err_def call_with_None)

lemma fst_raising_Inr: "fst (raising (Inr g)) = fst g"
  by (simp add: raising_def)

lemma never_bind:
  assumes "\<And>x. fst (raising (f x)) = []"
  shows "fst (raising (bind_err m f)) = []"
  using assms by (cases m) (simp_all add: bind_err_def raising_def)

lemma spat_none: "fst (dsm_spat d create_folds data dist_mat spatial_radius dist_metric None y n_folds) = []"
  unfolding dsm_spat_def
  by (intro never_bind) (simp add: fst_raising_Inr yield_each_never bind_call_None)

lemma temp_none: "fst (dsm_temp d create_folds data temporal_radius dist_metric None y n_folds) = []"
proof (cases "shape_of data = []")
  case True
  then show ?thesis by (simp add: dsm_temp_def raising_Inl)
next
  case False
  then show ?thesis
    unfolding dsm_temp_def Let_def
    by (simp only: if_False, intro never_bind)
       (simp add: fst_raising_Inr yield_each_never bind_call_None)
qed

lemma fst_next_of_Nil: "fst (next_of kind []) = []"
  by (cases kind) (simp_all add: next_of_def)

lemma map_err_never:
  assumes "\<And>x. \<exists>e. f x = Inl e"
  shows "map_err f xs = Inr [] \<or> (\<exists>e. map_err f xs = Inl e)"
proof (cases xs)
  case Nil
  then show ?thesis by simp
next
  case (Cons x xs')
  from assms obtain e where "f x = Inl e" by blast
  with Cons show ?thesis by simp
qed

lemma grid_call_None:
  "\<exists>e. (case p of (series, sample) \<Rightarrow>
          bind_err (row_of dist_mat series) (\<lambda>series_dist.
          bind_err (g series_dist sample) (\<lambda>patch. call_with f patch metric None))) = Inl e"
proof (cases p)
  case (Pair series sample)
  show ?thesis
  proof (cases "row_of dist_mat series")
    case (Inl e)
    then show ?thesis by (simp add: Pair bind_err_def)
  next
    case (Inr row)
    then show ?thesis
      using bind_call_None [of "g row sample" f metric]
      by (simp add: Pair bind_err_def)
  qed
qed

lemma spattemp_none:
  "fst (dsm_spattemp d create_folds kind data dist_mat spatial_radius temporal_radius
     dist_metric None y n_folds n_jobs) = []"
proof -
  consider n_series n_samples where "tl (shape_of data) = [n_series, n_samples]"
    | "\<forall>n_series n_samples. tl (shape_of data) \<noteq> [n_series, n_samples]"
    by blast
  then show ?thesis
  proof cases
    case 1
    have last_step: "fst (raising (bind_err m (\<lambda>results. Inr (next_of kind results)))) = []"
      if "m = Inr [] \<or> (\<exists>e. m = Inl e)" for m :: "error + real list list"
      using that by (auto simp: bind_err_def raising_def fst_next_of_Nil)
    show ?thesis
      unfolding dsm_spattemp_def 1 list.case Let_def
      by (intro never_bind last_step map_err_never grid_call_None)
  next
    case 2
    then have "dsm_spattemp d create_folds kind data dist_mat spatial_radius temporal_radius
        dist_metric None y n_folds n_jobs
      = raising (Inl (ValueError ''wrong number of values to unpack''))"
      unfolding dsm_spattemp_def by (simp split: list.splits)
    then show ?thesis by (simp add: raising_Inl)
  qed
qed

text \<open>
  C3, as stated: with \<open>dist_params = None\<close> the request for the first element raises a
  TypeError, for every call. Where there is no patch the loop body never runs: for 4
  samples and radius 3 there is no center, and for a distance matrix without rows no
  series; \<^const>\<open>dsm_temp\<close> and \<^const>\<open>dsm_spat\<close> end at once, without an exception.
\<close>

theorem C3_no_patch_counterexample:
  "get_time_patch_centers 4 3 = [] \<and>
   dsm_temp catalog twice_folds demo 3 ''sqeuclidean'' None None 2 = ([], None) \<and>
   dsm_spat catalog twice_folds demo [] 1 ''sqeuclidean'' None None 2 = ([], None)"
  by code_simp

text \<open>
  C3, amended: with \<open>dist_params = None\<close> none of the three generators ever yields a
  DSM. When the fold builder has returned a fold tensor, \<^const>\<open>dsm_spat\<close> and
  \<^const>\<open>dsm_temp\<close> end without an exception if there is no series, respectively no
  center, and raise the TypeError of \<^verbatim>\<open>**None\<close> at the first request if the first patch
  can be cut out; so does \<^const>\<open>dsm_spattemp\<close> when its first patch can be cut out.
\<close>

theorem C3_none_params:
  "fst (dsm_spat d create_folds data dist_mat spatial_radius dist_metric None y n_folds) = [] \<and>
   fst (dsm_temp d create_folds data temporal_radius dist_metric None y n_folds) = [] \<and>
   fst (dsm_spattemp d create_folds kind data dist_mat spatial_radius temporal_radius
          dist_metric None y n_folds n_jobs) = [] \<and>
   (create_folds data y n_folds None = Inr folds \<and> py_len folds = Inr len_folds \<longrightarrow>
      (dist_mat = [] \<longrightarrow>
         dsm_spat d create_folds data dist_mat spatial_radius dist_metric None y n_folds
           = ([], None)) \<and>
      (dist_mat \<noteq> [] \<and>
       spatial_patch folds (neighborhood (hd dist_mat) spatial_radius) = Inr patch \<longrightarrow>
         dsm_spat d create_folds data dist_mat spatial_radius dist_metric None y n_folds
           = ([], Some not_a_mapping)) \<and>
      (shape_of data \<noteq> [] \<and>
       get_time_patch_centers (int (last (shape_of data))) temporal_radius = [] \<longrightarrow>
         dsm_temp d create_folds data temporal_radius dist_metric None y n_folds
           = ([], None)) \<and>
      (shape_of data \<noteq> [] \<and>
       get_time_patch_centers (int (last (shape_of data))) temporal_radius = center # centers \<and>
       slice_last (center - temporal_radius) (center + temporal_radius) folds = Inr patch \<longrightarrow>
         dsm_temp d create_folds data temporal_radius dist_metric None y n_folds
           = ([], Some not_a_mapping))) \<and>
   (tl (shape_of data) = [n_series, n_samples] \<and>
    create_folds data y n_folds (Some n_jobs) = Inr folds \<and> py_len folds = Inr len_folds \<and>
    patch_grid n_series (get_time_patch_centers (int n_samples) temporal_radius)
      = (series, sample) # grid \<and>
    row_of dist_mat series = Inr series_dist \<and>
    spattemp_patch folds (neighborhood series_dist spatial_radius)
      (sample - temporal_radius) (sample + temporal_radius) = Inr patch \<longrightarrow>
      dsm_spattemp d create_folds kind data dist_mat spatial_radius temporal_radius
        dist_metric None y n_folds n_jobs = ([], Some not_a_mapping))"
proof -
  have spat_empty: "dsm_spat d create_folds data [] spatial_radius dist_metric None y n_folds
      = ([], None)"
    if "create_folds data y n_folds None = Inr folds" "py_len folds = Inr len_folds"
    using that by (simp add: dsm_spat_def bind_err_def raising_def)
  have spat_first: "dsm_spat d create_folds data dist_mat spatial_radius dist_metric None y n_folds
      = ([], Some not_a_mapping)"
    if "create_folds data y n_folds None = Inr folds" "py_len folds = Inr len_folds"
      "dist_mat \<noteq> []"
      "spatial_patch folds (neighborhood (hd dist_mat) spatial_radius) = Inr patch"
  proof -
    from that(3) obtain row rest where dm: "dist_mat = row # rest"
      by (cases dist_mat) simp_all
    show ?thesis
      using that(1,2,4)
      by (simp add: dsm_spat_def dm bind_err_def raising_def call_with_None)
  qed
  have temp_empty: "dsm_temp d create_folds data temporal_radius dist_metric None y n_folds
      = ([], None)"
    if "create_folds data y n_folds None = Inr folds" "py_len folds = Inr len_folds"
      "shape_of data \<noteq> []"
      "get_time_patch_centers (int (last (shape_of data))) temporal_radius = []"
    using that by (simp add: dsm_temp_def bind_err_def raising_def)
  have temp_first: "dsm_temp d create_folds data temporal_radius dist_metric None y n_folds
      = ([], Some not_a_mapping)"
    if "create_folds data y n_folds None = Inr folds" "py_len folds = Inr len_folds"
      "shape_of data \<noteq> []"
      "get_time_patch_centers (int (last (shape_of data))) temporal_radius = center # centers"
      "slice_last (center - temporal_radius) (center + temporal_radius) folds = Inr patch"
    using that by (simp add: dsm_temp_def bind_err_def raising_def call_with_None)
  have spattemp_first: "dsm_spattemp d create_folds kind data dist_mat spatial_radius
      temporal_radius dist_metric None y n_folds n_jobs = ([], Some not_a_mapping)"
    if "tl (shape_of data) = [n_series, n_samples]"
      "create_folds data y n_folds (Some n_jobs) = Inr folds" "py_len folds = Inr len_folds"
      "patch_grid n_series (get_time_patch_centers (int n_samples) temporal_radius)
         = (series, sample) # grid"
      "row_of dist_mat series = Inr series_dist"
      "spattemp_patch folds (neighborhood series_dist spatial_radius)
         (sample - temporal_radius) (sample + temporal_radius) = Inr patch"
    using that by (simp add: dsm_spattemp_def bind_err_def raising_def call_with_None)
  have p4: "create_folds data y n_folds None = Inr folds \<and> py_len folds = Inr len_folds \<longrightarrow>
      (dist_mat = [] \<longrightarrow>
         dsm_spat d create_folds data dist_mat spatial_radius dist_metric None y n_folds
           = ([], None)) \<and>
      (dist_mat \<noteq> [] \<and>
       spatial_patch folds (neighborhood (hd dist_mat) spatial_radius) = Inr patch \<longrightarrow>
         dsm_spat d create_folds data dist_mat spatial_radius dist_metric None y n_folds
           = ([], Some not_a_mapping)) \<and>
      (shape_of data \<noteq> [] \<and>
       get_time_patch_centers (int (last (shape_of data))) temporal_radius = [] \<longrightarrow>
         dsm_temp d create_folds data temporal_radius dist_metric None y n_folds
           = ([], None)) \<and>
      (shape_of data \<noteq> [] \<and>
       get_time_patch_centers (int (last (shape_of data))) temporal_radius = center # centers \<and>
       slice_last (center - temporal_radius) (center + temporal_radius) folds = Inr patch \<longrightarrow>
         dsm_temp d create_folds data temporal_radius dist_metric None y n_folds
           = ([], Some not_a_mapping))"
  proof (intro impI conjI; (elim conjE)?)
    assume h: "create_folds data y n_folds None = Inr folds" "py_len folds = Inr len_folds"
    {
      assume "dist_mat = []"
      with spat_empty [OF h]
      show "dsm_spat d create_folds data dist_mat spatial_radius dist_metric None y n_folds
           = ([], None)" by simp
    next
      assume "dist_mat \<noteq> []"
        "spatial_patch folds (neighborhood (hd dist_mat) spatial_radius) = Inr patch"
      with h show "dsm_spat d create_folds data dist_mat spatial_radius dist_metric None y n_folds
           = ([], Some not_a_mapping)" by (rule spat_first)
    next
      assume "shape_of data \<noteq> []"
        "get_time_patch_centers (int (last (shape_of data))) temporal_radius = []"
      with h show "dsm_temp d create_folds data temporal_radius dist_metric None y n_folds
           = ([], None)" by (rule temp_empty)
    next
      assume "shape_of data \<noteq> []"
        "get_time_patch_centers (int (last (shape_of data))) temporal_radius = center # centers"
        "slice_last (center - temporal_radius) (center + temporal_radius) folds = Inr patch"
      with h show "dsm_temp d create_folds data temporal_radius dist_metric None y n_folds
           = ([], Some not_a_mapping)" by (rule temp_first)
    }
  qed
  have p5: "tl (shape_of data) = [n_series, n_samples] \<and>
    create_folds data y n_folds (Some n_jobs) = Inr folds \<and> py_len folds = Inr len_folds \<and>
    patch_grid n_series (get_time_patch_centers (int n_samples) temporal_radius)
      = (series, sample) # grid \<and>
    row_of dist_mat series = Inr series_dist \<and>
    spattemp_patch folds (neighborhood series_dist spatial_radius)
      (sample - temporal_radius) (sample + temporal_radius) = Inr patch \<longrightarrow>
      dsm_spattemp d create_folds kind data dist_mat spatial_radius temporal_radius
        dist_metric None y n_folds n_jobs = ([], Some not_a_mapping)"
    using spattemp_first by simp
  from spat_none temp_none spattemp_none p4 p5 show ?thesis
    by (intro conjI)
qed


theorem C3_none_params_witness:
  "twice_folds demo None 2 None = Inr (Nd [demo, demo]) \<and>
   py_len (Nd [demo, demo]) = Inr 2 \<and>
   dsm_spat catalog twice_folds demo [[0]] 1 ''sqeuclidean'' None None 2
     = ([], Some not_a_mapping) \<and>
   dsm_temp catalog twice_folds demo 1 ''sqeuclidean'' None None 2
     = ([], Some not_a_mapping) \<and>
   dsm_spattemp catalog twice_folds AsList demo [[0]] 1 1 ''sqeuclidean'' None None 2 1
     = ([], Some not_a_mapping) \<and>
   dsm_temp catalog twice_folds demo 3 ''sqeuclidean'' None None 2 = ([], None) \<and>
   fst (dsm_spat catalog twice_folds demo [[0]] 1 ''sqeuclidean'' None None 2) = []"
proof -
  have a: "twice_folds demo None 2 None = Inr (Nd [demo, demo])"
    by (simp add: twice_folds_def)
  have b: "py_len (Nd [demo, demo]) = Inr 2"
    by (simp add: py_len_def)
  have c: "dsm_spat catalog twice_folds demo [[0]] 1 ''sqeuclidean'' None None 2
     = ([], Some not_a_mapping)"
    by code_simp
  have e: "dsm_temp catalog twice_folds demo 1 ''sqeuclidean'' None None 2
     = ([], Some not_a_mapping)"
    by code_simp
  have f: "dsm_spattemp catalog twice_folds AsList demo [[0]] 1 1 ''sqeuclidean'' None None 2 1
     = ([], Some not_a_mapping)"
    by code_simp
  have g: "dsm_temp catalog twice_folds demo 3 ''sqeuclidean'' None None 2 = ([], None)"
    by code_simp
  have h: "fst (dsm_spat catalog twice_folds demo [[0]] 1 ''sqeuclidean'' None None 2) = []"
    using C3_none_params [of catalog twice_folds demo "[[0]]" 1 "''sqeuclidean''" None 2]
    by blast
  show ?thesis
    using a b c e f g h by blast
qed


subsection \<open>The range of centers\<close>

lemma py_range_empty: "stop \<le> start \<Longrightarrow> py_range start stop = []"
  by (subst py_range.simps) simp

lemma py_range_step: "start < stop \<Longrightarrow> py_range start stop = start # py_range (start + 1) stop"
  by (subst py_range.simps) simp

lemma py_range_upto: "py_range start stop = [start..stop - 1]"
proof (induction start stop rule: py_range.induct)
  case (1 start stop)
  show ?case
  proof (cases "start < stop")
    case True
    then have "py_range start stop = start # [start + 1..stop - 1]"
      using 1 by (simp add: py_range_step)
    also have "\<dots> = [start..stop - 1]"
      using True by (simp add: upto_rec1)
    finally show ?thesis .
  next
    case False
    then show ?thesis by (simp add: py_range_empty)
  qed
qed

lemma centers_upto:
  "get_time_patch_centers n r = [r..n - r]"
  by (simp add: get_time_patch_centers_def py_range_upto)

text \<open>
  C4, as stated: the center list is empty whenever \<open>2 * temporal_radius \<ge> n_samples\<close>.
  It fails where the two are equal: for 10 samples and radius 5 the window of the
  center 5 is \<open>[0, 10)\<close>, it fits, and the code returns that center.
\<close>

theorem C4_centers_empty_counterexample:
  "(2::int) * 5 \<ge> 10 \<and> get_time_patch_centers 10 5 = [5]"
  by (simp add: centers_upto upto_rec1)

text \<open>
  C4, amended: the center list is empty exactly when \<open>2 * temporal_radius > n_samples\<close>;
  when \<open>2 * temporal_radius = n_samples\<close> it holds the one center \<open>temporal_radius\<close>.
\<close>

theorem C4_centers_empty_iff:
  "(get_time_patch_centers n r = []) = (n < 2 * r) \<and>
   (2 * r = n \<longrightarrow> get_time_patch_centers n r = [r])"
  by (auto simp: centers_upto upto_rec1)

theorem C4_centers_empty_iff_witness:
  "(get_time_patch_centers 10 6 = []) \<and> (10::int) < 2 * 6 \<and>
   (2::int) * 5 = 10 \<and> get_time_patch_centers 10 5 = [5]"
  using C4_centers_empty_iff [of 10 6] C4_centers_empty_iff [of 10 5] by simp

text \<open>
  C8: when \<open>2 * temporal_radius < n_samples\<close>, the centers are the integers from
  \<open>temporal_radius\<close> to \<open>n_samples - temporal_radius\<close> inclusive, in ascending order
  and without repetition, \<open>n_samples - 2 * temporal_radius + 1\<close> of them.
\<close>

theorem C8_centers_range:
  assumes "2 * r < n"
  shows "get_time_patch_centers n r = [r..n - r] \<and>
         length (get_time_patch_centers n r) = nat (n - 2 * r + 1) \<and>
         sorted_wrt (<) (get_time_patch_centers n r) \<and>
         set (get_time_patch_centers n r) = {r..n - r} \<and>
         hd (get_time_patch_centers n r) = r \<and>
         last (get_time_patch_centers n r) = n - r"
proof -
  have eq: "get_time_patch_centers n r = [r..n - r]"
    by (rule centers_upto)
  have len: "length (get_time_patch_centers n r) = nat (n - 2 * r + 1)"
    using assms by (simp add: eq)
  have le: "r \<le> n - r"
    using assms by simp
  have first: "hd (get_time_patch_centers n r) = r"
    using le by (simp add: eq upto_rec1)
  have final: "last (get_time_patch_centers n r) = n - r"
    using le by (simp add: eq upto_rec2)
  show ?thesis
    using len first final by (simp add: eq)
qed

theorem C8_centers_range_witness:
  "(2::int) * 2 < 10 \<and> get_time_patch_centers 10 2 = [2, 3, 4, 5, 6, 7, 8] \<and>
   length (get_time_patch_centers 10 2) = 7"
  using C8_centers_range [of 2 10] by (simp add: upto_rec1)

end
